theory Spec2Isabelle
  imports Complex_Main "HOL-Library.Sublist"
begin

section \<open>Data model (shared/schema.ts)\<close>

text \<open>
  JavaScript strings are sequences of UTF-16 code units. Where the source looks at the
  code units (the title, which is filtered with a regular expression and may hold Cyrillic
  letters; the endpoint, which is trimmed; the URLs made from it) a string is a list of
  code units. The other strings of the model (ids, messages, header values, the submitted
  URL) are only compared or searched for ASCII text and are byte strings.
\<close>

type_synonym ustring = "nat list"

text \<open>
  A row of the table \<open>download_jobs\<close>. The source names the key \<open>id\<close>; it is \<open>jobId\<close>
  here. Nullable columns are options.
\<close>

record DownloadJob =
  jobId :: string
  userId :: string
  youtubeUrl :: string
  videoTitle :: "ustring option"
  videoThumbnail :: "string option"
  format :: string
  quality :: "string option"
  status :: string
  progress :: "int option"
  errorMessage :: "string option"
  filePath :: "string option"
  fileSize :: "nat option"
  uploadedToNas :: "int option"
  createdAt :: "string option"
  updatedAt :: "string option"

text \<open>
  \<open>Partial<DownloadJob>\<close>, restricted to the columns routes.ts ever passes:
  \<open>None\<close> is a key that is absent from the object, \<open>Some v\<close> a key that is set
  (to \<open>null\<close> when \<open>v\<close> is \<open>None\<close>, for a nullable column).
\<close>

record job_updates =
  set_status :: "string option"
  set_progress :: "int option"
  set_errorMessage :: "string option option"
  set_filePath :: "string option option"
  set_fileSize :: "nat option option"
  set_uploadedToNas :: "int option"

definition no_updates :: job_updates where
  "no_updates = \<lparr>set_status = None, set_progress = None, set_errorMessage = None,
     set_filePath = None, set_fileSize = None, set_uploadedToNas = None\<rparr>"

text \<open>The columns of \<open>user_settings\<close> that routes.ts reads.\<close>

record UserSettings =
  synologyEndpoint :: "ustring option"
  autoUploadToNas_flag :: "int option"
  proxyEnabled :: "int option"
  proxyType :: "string option"
  proxyHost :: "string option"
  proxyPort :: "nat option"
  proxyUsername :: "string option"
  proxyPassword :: "string option"

record ProxyConfig =
  pc_enabled :: bool
  pc_type :: string
  pc_host :: string
  pc_port :: nat
  pc_username :: "string option"
  pc_password :: "string option"

record VideoInfo =
  title :: ustring
  thumbnail :: string

section \<open>The world the routes act on\<close>

text \<open>Events pushed over the realtime channel (the speed and ETA labels are left out).\<close>

datatype event = job_update "DownloadJob option" | job_deleted string

text \<open>A call of \<open>processDownload\<close> that a route starts and does not await.\<close>

record spawn =
  sp_jobId :: string
  sp_userId :: string
  sp_url :: string
  sp_format :: string
  sp_quality :: "string option"
  sp_proxy :: "ProxyConfig option"

text \<open>Outbound requests: method, URL, headers, and the length of the body.\<close>

datatype http_request =
  POST ustring "(string \<times> string) list"
| PATCH ustring "(string \<times> string) list" nat

text \<open>
  \<open>jobs\<close> and \<open>settings\<close> are the two tables, \<open>files\<close> maps the path of every file of
  the download directory to its size, \<open>clock\<close> is what \<open>new Date().toISOString()\<close>
  reads. \<open>broadcasts\<close>, \<open>spawned\<close> and \<open>network\<close> log, oldest first, the calls of
  \<open>broadcastToUser\<close>, the orchestrator runs started and the requests sent.
  \<open>removed\<close> logs, oldest first, the files that routes.ts deletes itself with
  \<open>fs.unlinkSync\<close>, each with the number of calls of \<open>broadcastToUser\<close> made before
  the deletion, which places it among the announcements.
\<close>

record world =
  jobs :: "string \<rightharpoonup> DownloadJob"
  settings :: "string \<rightharpoonup> UserSettings"
  files :: "string \<rightharpoonup> nat"
  clock :: string
  broadcasts :: "(string \<times> event) list"
  spawned :: "spawn list"
  network :: "http_request list"
  removed :: "(string \<times> nat) list"

text \<open>
  What routes.ts imports from modules that are not part of the sources at hand
  (server/youtube.ts, zod, the Node runtime), taken as parameters.
  \<open>getDownloadFilePath\<close> reads the download directory; \<open>cleanupDownloadFile\<close> and
  \<open>autoCleanupIfNeeded\<close> change it (the latter may throw, \<open>Inl\<close> the message);
  \<open>getVideoInfo\<close> is the metadata probe (\<open>Inl\<close> the message of the error it throws);
  \<open>isUrl\<close> is zod's \<open>z.string().url()\<close>; \<open>base64\<close> is
  \<open>Buffer.from(s).toString('base64')\<close>; \<open>resolveURL rel base\<close> is
  \<open>new URL(rel, base).toString()\<close>, \<open>None\<close> when it throws;
  \<open>encodeURIComponent\<close> is the built-in of that name.
\<close>

record env =
  getDownloadFilePath :: "(string \<rightharpoonup> nat) \<Rightarrow> string \<Rightarrow> string \<Rightarrow> string option"
  cleanupDownloadFile :: "string \<Rightarrow> (string \<rightharpoonup> nat) \<Rightarrow> (string \<rightharpoonup> nat)"
  autoCleanupIfNeeded :: "string set \<Rightarrow> (string \<rightharpoonup> nat) \<Rightarrow> string + (string \<rightharpoonup> nat)"
  getVideoInfo :: "string \<Rightarrow> ProxyConfig option \<Rightarrow> string + VideoInfo"
  isUrl :: "string \<Rightarrow> bool"
  base64 :: "ustring \<Rightarrow> string"
  resolveURL :: "ustring \<Rightarrow> ustring \<Rightarrow> ustring option"
  encodeURIComponent :: "ustring \<Rightarrow> string"

text \<open>What a route answers: the HTTP status and the body.\<close>

datatype body =
  Msg string
| MsgDetails string string
| ZodError string
| JobJson "DownloadJob option"
| SuccessTrue
| UploadStarted ustring nat
| FileStream string string string

datatype reply = Reply nat body

section \<open>Storage (server/storage.ts)\<close>

definition apply_updates :: "job_updates \<Rightarrow> string \<Rightarrow> DownloadJob \<Rightarrow> DownloadJob" where
  "apply_updates u now j =
     j\<lparr>status := (case set_status u of None \<Rightarrow> status j | Some v \<Rightarrow> v),
       progress := (case set_progress u of None \<Rightarrow> progress j | Some v \<Rightarrow> Some v),
       errorMessage := (case set_errorMessage u of None \<Rightarrow> errorMessage j | Some v \<Rightarrow> v),
       filePath := (case set_filePath u of None \<Rightarrow> filePath j | Some v \<Rightarrow> v),
       fileSize := (case set_fileSize u of None \<Rightarrow> fileSize j | Some v \<Rightarrow> v),
       uploadedToNas := (case set_uploadedToNas u of None \<Rightarrow> uploadedToNas j | Some v \<Rightarrow> Some v),
       updatedAt := Some now\<rparr>"

definition getDownloadJob :: "string \<Rightarrow> world \<Rightarrow> DownloadJob option" where
  "getDownloadJob jid w = jobs w jid"

text \<open>
  \<open>UPDATE ... SET updates, updatedAt = now WHERE id = jid\<close>, then the row is read back:
  \<open>undefined\<close> when no row has that id. There is no check of the row's current status.
\<close>

definition updateDownloadJob :: "string \<Rightarrow> job_updates \<Rightarrow> world \<Rightarrow> world \<times> DownloadJob option" where
  "updateDownloadJob jid u w =
     (case jobs w jid of
        None \<Rightarrow> (w, None)
      | Some j \<Rightarrow>
          (let j' = apply_updates u (clock w) j
           in (w\<lparr>jobs := (jobs w)(jid \<mapsto> j')\<rparr>, Some j')))"

definition deleteDownloadJob :: "string \<Rightarrow> world \<Rightarrow> world" where
  "deleteDownloadJob jid w = w\<lparr>jobs := (jobs w)(jid := None)\<rparr>"

definition getUserSettings :: "string \<Rightarrow> world \<Rightarrow> UserSettings option" where
  "getUserSettings uid w = settings w uid"


section \<open>Routes on one job (server/routes.ts)\<close>

definition broadcastToUser :: "string \<Rightarrow> event \<Rightarrow> world \<Rightarrow> world" where
  "broadcastToUser uid e w = w\<lparr>broadcasts := broadcasts w @ [(uid, e)]\<rparr>"

text \<open>
  \<open>requireAuth\<close>: the session's user id, when there is one and it is not the empty
  string, is handed to the route; else the answer is 401. The storage calls are taken not
  to throw, so the 500 answers of the routes' \<open>catch\<close> blocks do not appear.
\<close>

definition requireAuth ::
  "string option \<Rightarrow> (string \<Rightarrow> world \<Rightarrow> world \<times> reply) \<Rightarrow> world \<Rightarrow> world \<times> reply" where
  "requireAuth sess handler w =
     (case sess of
        None \<Rightarrow> (w, Reply 401 (Msg ''Unauthorized''))
      | Some uid \<Rightarrow>
          if uid = [] then (w, Reply 401 (Msg ''Unauthorized'')) else handler uid w)"

definition not_found :: reply where
  "not_found = Reply 404 (Msg ''Job not found'')"

text \<open>POST /api/jobs/:id/cancel\<close>

definition cancel_handler :: "string \<Rightarrow> string \<Rightarrow> world \<Rightarrow> world \<times> reply" where
  "cancel_handler jid uid w =
     (case getDownloadJob jid w of
        None \<Rightarrow> (w, not_found)
      | Some job \<Rightarrow>
          if userId job \<noteq> uid then (w, not_found)
          else
            (let (w1, updatedJob) =
                   updateDownloadJob jid
                     (no_updates\<lparr>set_status := Some ''failed'',
                        set_errorMessage := Some (Some ''Cancelled by user'')\<rparr>) w;
                 w2 = broadcastToUser uid (job_update updatedJob) w1
             in (w2, Reply 200 (JobJson updatedJob))))"

definition post_jobs_cancel :: "string option \<Rightarrow> string \<Rightarrow> world \<Rightarrow> world \<times> reply" where
  "post_jobs_cancel sess jid w = requireAuth sess (cancel_handler jid) w"

text \<open>
  POST /api/jobs/:id/retry. The call of \<open>processDownload\<close> is not awaited: it is logged
  in \<open>spawned\<close>, without a proxy configuration, as the source passes none.
\<close>

definition retry_handler :: "env \<Rightarrow> string \<Rightarrow> string \<Rightarrow> world \<Rightarrow> world \<times> reply" where
  "retry_handler E jid uid w =
     (case getDownloadJob jid w of
        None \<Rightarrow> (w, not_found)
      | Some job \<Rightarrow>
          if userId job \<noteq> uid then (w, not_found)
          else
            (let w0 = w\<lparr>files := cleanupDownloadFile E jid (files w)\<rparr>;
                 (w1, updatedJob) =
                   updateDownloadJob jid
                     \<lparr>set_status = Some ''queued'', set_progress = Some 0,
                      set_errorMessage = Some None, set_filePath = Some None,
                      set_fileSize = Some None, set_uploadedToNas = Some 0\<rparr> w0;
                 w2 = broadcastToUser uid (job_update updatedJob) w1;
                 w3 = w2\<lparr>spawned := spawned w2 @
                        [\<lparr>sp_jobId = jid, sp_userId = uid, sp_url = youtubeUrl job,
                          sp_format = format job, sp_quality = quality job,
                          sp_proxy = None\<rparr>]\<rparr>
             in (w3, Reply 200 (JobJson updatedJob))))"

definition post_jobs_retry :: "env \<Rightarrow> string option \<Rightarrow> string \<Rightarrow> world \<Rightarrow> world \<times> reply" where
  "post_jobs_retry E sess jid w = requireAuth sess (retry_handler E jid) w"

text \<open>DELETE /api/jobs/:id\<close>

definition delete_handler :: "env \<Rightarrow> string \<Rightarrow> string \<Rightarrow> world \<Rightarrow> world \<times> reply" where
  "delete_handler E jid uid w =
     (case getDownloadJob jid w of
        None \<Rightarrow> (w, not_found)
      | Some job \<Rightarrow>
          if userId job \<noteq> uid then (w, not_found)
          else
            (let w0 = w\<lparr>files := cleanupDownloadFile E jid (files w)\<rparr>;
                 w1 = deleteDownloadJob jid w0;
                 w2 = broadcastToUser uid (job_deleted jid) w1
             in (w2, Reply 200 SuccessTrue)))"

definition delete_jobs :: "env \<Rightarrow> string option \<Rightarrow> string \<Rightarrow> world \<Rightarrow> world \<times> reply" where
  "delete_jobs E sess jid w = requireAuth sess (delete_handler E jid) w"

text \<open>
  The name a file is offered under: the title, or \<open>video\<close> when it is null or empty,
  without the code units outside \<open>[a-zA-Z0-9\<close> Cyrillic \<open>\s\-_]\<close>, cut to 100 code units,
  then a dot and the extension.
\<close>

text \<open>
  The white space and the line terminators of ECMAScript, which \<open>\s\<close> matches and
  \<open>trim\<close> removes: TAB, LF, VT, FF, CR, space, U+00A0, U+1680, U+2000 to U+200A,
  U+2028, U+2029, U+202F, U+205F, U+3000 and U+FEFF.
\<close>

definition js_space :: "nat \<Rightarrow> bool" where
  "js_space c \<longleftrightarrow>
     c \<in> {9, 10, 11, 12, 13, 32, 160, 5760, 8232, 8233, 8239, 8287, 12288, 65279}
     \<or> (8192 \<le> c \<and> c \<le> 8202)"

definition title_char :: "nat \<Rightarrow> bool" where
  "title_char c \<longleftrightarrow>
     (97 \<le> c \<and> c \<le> 122) \<or> (65 \<le> c \<and> c \<le> 90) \<or> (48 \<le> c \<and> c \<le> 57)
     \<or> (1072 \<le> c \<and> c \<le> 1103) \<or> (1040 \<le> c \<and> c \<le> 1071)
     \<or> c = 1105 \<or> c = 1025 \<or> js_space c \<or> c = 45 \<or> c = 95"

definition code_units :: "string \<Rightarrow> ustring" where
  "code_units s = map of_char s"

definition ext_of :: "DownloadJob \<Rightarrow> string" where
  "ext_of job = (if format job = ''audio'' then ''mp3'' else ''mp4'')"

definition filename_of :: "DownloadJob \<Rightarrow> ustring" where
  "filename_of job =
     (let t = (case videoTitle job of
                 None \<Rightarrow> code_units ''video''
               | Some s \<Rightarrow> if s = [] then code_units ''video'' else s);
          safeTitle = take 100 (filter title_char t)
      in safeTitle @ code_units ''.'' @ code_units (ext_of job))"

text \<open>GET /api/jobs/:id/download\<close>

definition download_file_handler :: "env \<Rightarrow> string \<Rightarrow> string \<Rightarrow> world \<Rightarrow> world \<times> reply" where
  "download_file_handler E jid uid w =
     (case getDownloadJob jid w of
        None \<Rightarrow> (w, not_found)
      | Some job \<Rightarrow>
          if userId job \<noteq> uid then (w, not_found)
          else if status job \<noteq> ''completed'' then
            (w, Reply 400 (Msg ''Job is not completed yet''))
          else
            (case getDownloadFilePath E (files w) jid (format job) of
               None \<Rightarrow> (w, Reply 404 (Msg ''File not found on server''))
             | Some p \<Rightarrow>
                 if p = [] \<or> files w p = None then
                   (w, Reply 404 (Msg ''File not found on server''))
                 else
                   (w, Reply 200
                     (FileStream p
                        (''attachment; filename*=UTF-8'' @ [CHR 0x27, CHR 0x27]
                           @ encodeURIComponent E (filename_of job))
                        (if format job = ''audio'' then ''audio/mpeg'' else ''video/mp4'')))))"

definition get_jobs_download :: "env \<Rightarrow> string option \<Rightarrow> string \<Rightarrow> world \<Rightarrow> world \<times> reply" where
  "get_jobs_download E sess jid w = requireAuth sess (download_file_handler E jid) w"

section \<open>Progress callbacks and numbers\<close>

text \<open>
  A JavaScript number is a double, and every finite double is a rational. \<open>Math.round\<close>
  gives the nearest integer, a half upwards, of the exact value of its argument.
\<close>

definition Math_round :: "rat \<Rightarrow> int" where
  "Math_round x = \<lfloor>x + 1 / 2\<rfloor>"

text \<open>
  The pair \<open>(m, k)\<close> stands for the non-negative double \<open>m * 2^k\<close>; \<open>dval\<close> is its
  value.
\<close>

type_synonym dbl = "nat \<times> int"

definition dval :: "dbl \<Rightarrow> rat" where
  "dval d = (if 0 \<le> snd d then of_nat (fst d) * 2 ^ nat (snd d)
             else of_nat (fst d) / 2 ^ nat (- snd d))"

text \<open>The number of binary digits of \<open>n\<close>.\<close>

fun bits :: "nat \<Rightarrow> nat" where
  "bits n = (if n = 0 then 0 else Suc (bits (n div 2)))"

declare bits.simps [simp del]

text \<open>\<open>n / d\<close> rounded to the nearest integer, a tie to the even one.\<close>

definition round_even :: "nat \<Rightarrow> nat \<Rightarrow> nat" where
  "round_even n d =
     (let q = n div d; r = n mod d
      in if 2 * r < d then q else if d < 2 * r then q + 1 else if even q then q else q + 1)"

text \<open>
  The arithmetic of doubles rounds the exact result to the nearest double, a tie to the
  one with an even significand of 53 bits (the range of the exponent, which the sizes and
  offsets of files do not reach, is not modelled). \<open>rd_frac a b\<close> is the double nearest
  to \<open>a / b\<close> for \<open>b > 0\<close>: with \<open>e0\<close> the difference of the numbers of digits,
  \<open>a / b\<close> lies between \<open>2^(e0 - 1)\<close> and \<open>2^(e0 + 1)\<close>, so \<open>n / d\<close> lies between
  \<open>2^51\<close> and \<open>2^53\<close>, and the significand is \<open>n / d\<close> or \<open>2 * n / d\<close>, rounded.
  \<open>rd_dy n k\<close> is the double nearest to \<open>n * 2^k\<close>.
\<close>

definition rd_frac :: "nat \<Rightarrow> nat \<Rightarrow> dbl" where
  "rd_frac a b =
     (if a = 0 then (0, 0)
      else
        (let e0 = int (bits a) - int (bits b);
             s = 52 - e0;
             n = a * 2 ^ nat s;
             d = b * 2 ^ nat (- s)
         in if 2 ^ 52 * d \<le> n then (round_even n d, - s)
            else (round_even (2 * n) d, - s - 1)))"

definition rd_dy :: "nat \<Rightarrow> int \<Rightarrow> dbl" where
  "rd_dy n k =
     (let l = bits n
      in if l \<le> 53 then (n, k) else (round_even n (2 ^ (l - 53)), k + int (l - 53)))"

text \<open>
  \<open>a / b\<close> and \<open>x * c\<close> as JavaScript computes them, for integers \<open>a\<close>, \<open>b\<close> and \<open>c\<close>
  below \<open>2^53\<close> (which doubles hold exactly) and a double \<open>x\<close>.
\<close>

definition js_div :: "nat \<Rightarrow> nat \<Rightarrow> dbl" where
  "js_div a b = rd_frac a b"

definition js_mul :: "dbl \<Rightarrow> nat \<Rightarrow> dbl" where
  "js_mul x c = rd_dy (fst x * c) (snd x)"

text \<open>\<open>n.toString()\<close> for a non-negative integer: its decimal digits.\<close>

definition digit :: "nat \<Rightarrow> char" where
  "digit d = ''0123456789'' ! d"

fun toString :: "nat \<Rightarrow> string" where
  "toString n = (if n < 10 then [digit n] else toString (n div 10) @ [digit (n mod 10)])"

declare toString.simps [simp del]


text \<open>
  What \<open>downloadVideo\<close> hands to its callback (the speed and ETA labels, which only go
  into the event, are left out).
\<close>

record DownloadProgress =
  p_status :: string
  p_progress :: rat
  p_error :: "string option"

text \<open>
  The callback \<open>processDownload\<close> passes to \<open>downloadVideo\<close>: it re-reads the job and
  drops the update when the job is gone or \<open>failed\<close>; else it writes the reported status,
  the rounded percentage and \<open>progress.error || null\<close>. The read and the write are taken
  as one step.
\<close>

definition progressCallback :: "string \<Rightarrow> string \<Rightarrow> DownloadProgress \<Rightarrow> world \<Rightarrow> world" where
  "progressCallback jid uid p w =
     (case getDownloadJob jid w of
        None \<Rightarrow> w
      | Some currentJob \<Rightarrow>
          if status currentJob = ''failed'' then w
          else
            (let (w1, job) =
                   updateDownloadJob jid
                     (no_updates\<lparr>set_status := Some (p_status p),
                        set_progress := Some (Math_round (p_progress p)),
                        set_errorMessage :=
                          Some (case p_error p of
                                  None \<Rightarrow> None
                                | Some e \<Rightarrow> if e = [] then None else Some e)\<rparr>) w
             in broadcastToUser uid (job_update job) w1))"

text \<open>
  While \<open>downloadVideo\<close> is awaited, either it calls the callback, or something else
  happens to the world: another request is served, the subprocess writes its file.
\<close>

datatype dl_step = Callback DownloadProgress | Meanwhile "world \<Rightarrow> world"

fun run_steps :: "string \<Rightarrow> string \<Rightarrow> dl_step list \<Rightarrow> world \<Rightarrow> world" where
  "run_steps jid uid [] w = w"
| "run_steps jid uid (Callback p # ss) w = run_steps jid uid ss (progressCallback jid uid p w)"
| "run_steps jid uid (Meanwhile f # ss) w = run_steps jid uid ss (f w)"

text \<open>The persisted progress of the job after each of a list of callbacks.\<close>

fun progress_trace :: "string \<Rightarrow> string \<Rightarrow> DownloadProgress list \<Rightarrow> world \<Rightarrow> int option option list" where
  "progress_trace jid uid [] w = []"
| "progress_trace jid uid (p # ps) w =
     map_option progress (jobs (progressCallback jid uid p w) jid)
       # progress_trace jid uid ps (progressCallback jid uid p w)"

section \<open>The resumable upload (routes.ts)\<close>

text \<open>
  The remote endpoint. Its answer to the create request: the connection fails with a
  message, or a response with status, \<open>Location\<close> header, body text and status text.
  Its answer to a PATCH: the connection fails, or a response with status and the number
  \<open>parseInt\<close> reads from the \<open>Upload-Offset\<close> header (\<open>None\<close> when the header is absent
  or empty; a header that \<open>parseInt\<close> reads as \<open>NaN\<close>, as negative or as \<open>2^53\<close> or
  more is outside the model). \<open>on_patch i off len\<close> answers the PATCH number \<open>i\<close> (from 0) of an upload,
  sent with \<open>Upload-Offset: off\<close> and a body of \<open>len\<close> bytes.
\<close>

datatype create_result = ConnectFail string | CreateResponse nat "ustring option" string string

datatype patch_result = PatchFail string | PatchResponse nat "nat option"

record tus_server =
  on_create :: create_result
  on_patch :: "nat \<Rightarrow> nat \<Rightarrow> nat \<Rightarrow> patch_result"

text \<open>
  \<open>s.trim()\<close> removes the white space and the line terminators at both ends: the code
  units of \<open>js_space\<close>.
\<close>

definition trim :: "ustring \<Rightarrow> ustring" where
  "trim s = rev (dropWhile js_space (rev (dropWhile js_space s)))"

text \<open>
  \<open>endpoint.trim().replace(/\/$/, '')\<close>, then \<open>/files/\<close> is appended, or only \<open>/\<close>
  when the rest ends with \<open>/files\<close> (47 is the code unit of the slash).
\<close>

definition tusEndpoint :: "ustring \<Rightarrow> ustring" where
  "tusEndpoint ep =
     (let e0 = trim ep;
          e = (if e0 \<noteq> [] \<and> last e0 = 47 then butlast e0 else e0)
      in if \<not> suffix (code_units ''/files'') e then e @ code_units ''/files/''
         else e @ code_units ''/'')"

definition tus_headers :: "(string \<times> string) list" where
  "tus_headers = [(''Tus-Resumable'', ''1.0.0'')]"

definition create_request :: "env \<Rightarrow> ustring \<Rightarrow> ustring \<Rightarrow> nat \<Rightarrow> http_request" where
  "create_request E endpoint filename fsize =
     POST endpoint
       (tus_headers @ [(''Upload-Length'', toString fsize),
                       (''Upload-Metadata'', ''filename '' @ base64 E filename)])"

definition patch_request :: "ustring \<Rightarrow> nat \<Rightarrow> nat \<Rightarrow> http_request" where
  "patch_request url off len =
     PATCH url
       (tus_headers @ [(''Upload-Offset'', toString off),
                       (''Content-Type'', ''application/offset+octet-stream'')])
       len"

text \<open>
  The session URL from a \<open>Location\<close> header: one that starts with \<open>http://\<close> or
  \<open>https://\<close> has a leading \<open>http:\<close> replaced by \<open>https:\<close>, any other is handed to
  \<open>new URL\<close> with the endpoint as base.
\<close>

definition fullUploadUrl :: "env \<Rightarrow> ustring \<Rightarrow> ustring \<Rightarrow> ustring option" where
  "fullUploadUrl E uploadUrl endpoint =
     (if prefix (code_units ''http://'') uploadUrl \<or> prefix (code_units ''https://'') uploadUrl
      then Some (if prefix (code_units ''http:'') uploadUrl
                 then code_units ''https:'' @ drop 5 uploadUrl else uploadUrl)
      else resolveURL E uploadUrl endpoint)"

definition CHUNK_SIZE :: nat where
  "CHUNK_SIZE = 5 * 1024 * 1024"

text \<open>
  The two progress formulas, \<open>Math.round((uploadOffset / fileSize) * 99)\<close> in the manual
  upload and \<open>90 + Math.round((uploadOffset / fileSize) * 9)\<close> in the automatic one: the
  division and the multiplication are those of doubles.
\<close>

definition uploadProgress :: "nat \<Rightarrow> nat \<Rightarrow> int" where
  "uploadProgress off fsize = Math_round (dval (js_mul (js_div off fsize) 99))"

definition autoUploadProgress :: "nat \<Rightarrow> nat \<Rightarrow> int" where
  "autoUploadProgress off fsize = 90 + Math_round (dval (js_mul (js_div off fsize) 9))"

text \<open>
  How the chunk loop ends: the condition \<open>uploadOffset < fileSize\<close> fails (with the
  final offset), an error is thrown (with its message), or the loop is still running when
  the fuel is used up.
\<close>

datatype loop_end = Finished nat | Threw string | Running

text \<open>
  One round of the \<open>while\<close> loop, entered with \<open>uploadOffset < fileSize\<close>: the chunk
  is sent; then either an error is thrown (\<open>Inl\<close>), or the offset moves to the
  \<open>Upload-Offset\<close> of the response, or by the chunk's length when there is none, and the
  progress is written and announced (\<open>Inr\<close> the new offset). The update is written
  without reading the job. Both copies of the loop in routes.ts are the same up to the
  progress formula \<open>pf\<close>. \<open>i\<close> counts the PATCH requests sent so far, \<open>off\<close> is
  \<open>uploadOffset\<close>. Of the chunk only its length is kept (reading it from the file is
  not modelled), and the speed and ETA labels are left out.
\<close>

definition chunkStep ::
  "(nat \<Rightarrow> nat \<Rightarrow> nat \<Rightarrow> patch_result) \<Rightarrow> (nat \<Rightarrow> nat \<Rightarrow> int) \<Rightarrow> string \<Rightarrow> string \<Rightarrow> ustring
     \<Rightarrow> nat \<Rightarrow> nat \<Rightarrow> nat \<Rightarrow> world \<Rightarrow> world \<times> (loop_end + nat)" where
  "chunkStep srv pf jid uid url fsize i off w =
     (let remainingBytes = fsize - off;
          chunkSize = min CHUNK_SIZE remainingBytes;
          w1 = w\<lparr>network := network w @ [patch_request url off chunkSize]\<rparr>
      in case srv i off chunkSize of
           PatchFail m \<Rightarrow> (w1, Inl (Threw m))
         | PatchResponse st newOffset \<Rightarrow>
             if st \<noteq> 204 \<and> st \<noteq> 200 then
               (w1, Inl (Threw (''TUS patch failed: '' @ toString st)))
             else
               (let off' = (case newOffset of Some v \<Rightarrow> v | None \<Rightarrow> off + chunkSize);
                    (w2, progressJob) =
                      updateDownloadJob jid
                        (no_updates\<lparr>set_status := Some ''uploading'',
                           set_progress := Some (pf off' fsize)\<rparr>) w1
                in (broadcastToUser uid (job_update progressJob) w2, Inr off')))"

text \<open>The loop; each round spends one unit of fuel.\<close>

fun chunkLoop ::
  "nat \<Rightarrow> (nat \<Rightarrow> nat \<Rightarrow> nat \<Rightarrow> patch_result) \<Rightarrow> (nat \<Rightarrow> nat \<Rightarrow> int) \<Rightarrow> string \<Rightarrow> string \<Rightarrow> ustring
     \<Rightarrow> nat \<Rightarrow> nat \<Rightarrow> nat \<Rightarrow> world \<Rightarrow> world \<times> loop_end" where
  "chunkLoop 0 srv pf jid uid url fsize i off w =
     (if off < fsize then (w, Running) else (w, Finished off))"
| "chunkLoop (Suc fuel) srv pf jid uid url fsize i off w =
     (if \<not> off < fsize then (w, Finished off)
      else
        (case chunkStep srv pf jid uid url fsize i off w of
           (w', Inl e) \<Rightarrow> (w', e)
         | (w', Inr off') \<Rightarrow> chunkLoop fuel srv pf jid uid url fsize (Suc i) off' w'))"

text \<open>
  What both uploads do once the loop has finished: first the job is marked and announced
  (\<open>mark_uploaded\<close>), then the local file is removed if \<open>fs.existsSync\<close> finds it
  (\<open>remove_local\<close>), which is logged in \<open>removed\<close>.
\<close>

definition mark_uploaded :: "string \<Rightarrow> string \<Rightarrow> world \<Rightarrow> world" where
  "mark_uploaded jid uid w =
     (let (w1, completedJob) =
            updateDownloadJob jid
              (no_updates\<lparr>set_status := Some ''completed'', set_progress := Some 100,
                 set_uploadedToNas := Some 1\<rparr>) w
      in broadcastToUser uid (job_update completedJob) w1)"

definition remove_local :: "string \<Rightarrow> world \<Rightarrow> world" where
  "remove_local path w =
     (if files w path = None then w
      else w\<lparr>files := (files w)(path := None),
             removed := removed w @ [(path, length (broadcasts w))]\<rparr>)"

definition upload_completed :: "string \<Rightarrow> string \<Rightarrow> string \<Rightarrow> world \<Rightarrow> world" where
  "upload_completed jid uid path w = remove_local path (mark_uploaded jid uid w)"

text \<open>
  POST /api/jobs/:id/upload-to-nas, in three parts. The last part: the job is set to
  \<open>uploading\<close>, the answer is sent, and the chunk loop runs; the world returned is the
  one after the loop.
\<close>

definition upload_transfer ::
  "tus_server \<Rightarrow> nat \<Rightarrow> string \<Rightarrow> string \<Rightarrow> string \<Rightarrow> ustring \<Rightarrow> nat \<Rightarrow> ustring \<Rightarrow> world
     \<Rightarrow> world \<times> reply" where
  "upload_transfer tus fuel jid uid p filename fsize url w1 =
     (let (w2, uploadingJob) =
            updateDownloadJob jid
              (no_updates\<lparr>set_status := Some ''uploading'', set_progress := Some 0\<rparr>) w1;
          w3 = broadcastToUser uid (job_update uploadingJob) w2;
          r = Reply 200 (UploadStarted filename fsize)
      in case chunkLoop fuel (on_patch tus) uploadProgress jid uid url fsize 0 0 w3 of
           (w4, Finished n) \<Rightarrow> (upload_completed jid uid p w4, r)
         | (w4, Threw m) \<Rightarrow>
             (let (w5, failedJob) =
                    updateDownloadJob jid
                      (no_updates\<lparr>set_status := Some ''failed'', set_progress := Some 0,
                         set_errorMessage := Some (Some (''Upload failed: '' @ m))\<rparr>) w4
              in (broadcastToUser uid (job_update failedJob) w5, r))
         | (w4, Running) \<Rightarrow> (w4, r))"

text \<open>
  The middle part, the create handshake. An error thrown here outside the inner
  \<open>try\<close> (the \<open>Location\<close> cannot be resolved) is answered with 500.
\<close>

definition upload_create ::
  "env \<Rightarrow> tus_server \<Rightarrow> nat \<Rightarrow> string \<Rightarrow> string \<Rightarrow> DownloadJob \<Rightarrow> string \<Rightarrow> nat \<Rightarrow> ustring \<Rightarrow> world
     \<Rightarrow> world \<times> reply" where
  "upload_create E tus fuel jid uid job p fsize ep w =
     (let endpoint = tusEndpoint ep;
          filename = filename_of job;
          w1 = w\<lparr>network := network w @ [create_request E endpoint filename fsize]\<rparr>
      in case on_create tus of
           ConnectFail m \<Rightarrow> (w1, Reply 400 (Msg (''Cannot connect to TUS server: '' @ m)))
         | CreateResponse st loc errorText statusText \<Rightarrow>
             if st \<noteq> 201 then
               (w1, Reply 400
                  (MsgDetails (''Upload initialization failed (HTTP '' @ toString st @ '')'')
                     (if errorText \<noteq> [] then errorText else statusText)))
             else
               (case loc of
                  None \<Rightarrow> (w1, Reply 400 (Msg ''Server did not return upload location''))
                | Some uploadUrl \<Rightarrow>
                    if uploadUrl = [] then
                      (w1, Reply 400 (Msg ''Server did not return upload location''))
                    else
                      (case fullUploadUrl E uploadUrl endpoint of
                         None \<Rightarrow>
                           (w1, Reply 500 (MsgDetails ''Failed to upload to NAS'' ''Invalid URL''))
                       | Some url \<Rightarrow> upload_transfer tus fuel jid uid p filename fsize url w1)))"

text \<open>The first part: the checks on the job, the settings and the file.\<close>

definition upload_handler ::
  "env \<Rightarrow> tus_server \<Rightarrow> nat \<Rightarrow> string \<Rightarrow> string \<Rightarrow> world \<Rightarrow> world \<times> reply" where
  "upload_handler E tus fuel jid uid w =
     (case getDownloadJob jid w of
        None \<Rightarrow> (w, not_found)
      | Some job \<Rightarrow>
          if userId job \<noteq> uid then (w, not_found)
          else if status job \<noteq> ''completed'' then
            (w, Reply 400 (Msg ''Job is not completed yet''))
          else if uploadedToNas job = Some 1 then
            (w, Reply 400 (Msg ''Already uploaded to NAS''))
          else
            (case Option.bind (getUserSettings uid w) synologyEndpoint of
               None \<Rightarrow> (w, Reply 400 (Msg ''TUS server not configured''))
             | Some ep \<Rightarrow>
                 if ep = [] then (w, Reply 400 (Msg ''TUS server not configured''))
                 else
                   (case getDownloadFilePath E (files w) jid (format job) of
                      None \<Rightarrow> (w, Reply 404 (Msg ''Downloaded file not found on server''))
                    | Some p \<Rightarrow>
                        (case files w p of
                           None \<Rightarrow> (w, Reply 404 (Msg ''Downloaded file not found on server''))
                         | Some fsize \<Rightarrow>
                             if p = [] then
                               (w, Reply 404 (Msg ''Downloaded file not found on server''))
                             else upload_create E tus fuel jid uid job p fsize ep w))))"

definition post_jobs_upload_to_nas ::
  "env \<Rightarrow> tus_server \<Rightarrow> nat \<Rightarrow> string option \<Rightarrow> string \<Rightarrow> world \<Rightarrow> world \<times> reply" where
  "post_jobs_upload_to_nas E tus fuel sess jid w = requireAuth sess (upload_handler E tus fuel jid) w"

text \<open>
  \<open>autoUploadToNas\<close>: it returns, throws (with the message), or is still in its loop when
  the fuel is used up. First its part from the update to \<open>uploading\<close> on.
\<close>

datatype auto_end = Returned | Thrown string | StillRunning

definition auto_upload ::
  "env \<Rightarrow> tus_server \<Rightarrow> nat \<Rightarrow> string \<Rightarrow> string \<Rightarrow> DownloadJob \<Rightarrow> string \<Rightarrow> nat \<Rightarrow> ustring \<Rightarrow> world
     \<Rightarrow> world \<times> auto_end" where
  "auto_upload E tus fuel jid uid job p fsize ep w =
     (let endpoint = tusEndpoint ep;
          filename = filename_of job;
          (w1, updatingJob) =
            updateDownloadJob jid
              (no_updates\<lparr>set_status := Some ''uploading'', set_progress := Some 90\<rparr>) w;
          w2 = broadcastToUser uid (job_update updatingJob) w1;
          w3 = w2\<lparr>network := network w2 @ [create_request E endpoint filename fsize]\<rparr>
      in case on_create tus of
           ConnectFail m \<Rightarrow> (w3, Thrown m)
         | CreateResponse st loc errorText statusText \<Rightarrow>
             if st \<noteq> 201 then (w3, Thrown (''TUS create failed: '' @ toString st))
             else
               (case loc of
                  None \<Rightarrow> (w3, Thrown ''No upload URL returned'')
                | Some uploadUrl \<Rightarrow>
                    if uploadUrl = [] then (w3, Thrown ''No upload URL returned'')
                    else
                      (case fullUploadUrl E uploadUrl endpoint of
                         None \<Rightarrow> (w3, Thrown ''Invalid URL'')
                       | Some url \<Rightarrow>
                           (case chunkLoop fuel (on_patch tus) autoUploadProgress
                                   jid uid url fsize 0 0 w3 of
                              (w4, Finished n) \<Rightarrow> (upload_completed jid uid p w4, Returned)
                            | (w4, Threw m) \<Rightarrow> (w4, Thrown m)
                            | (w4, Running) \<Rightarrow> (w4, StillRunning)))))"

definition autoUploadToNas ::
  "env \<Rightarrow> tus_server \<Rightarrow> nat \<Rightarrow> string \<Rightarrow> string \<Rightarrow> ustring \<Rightarrow> world \<Rightarrow> world \<times> auto_end" where
  "autoUploadToNas E tus fuel jid uid ep w =
     (case getDownloadJob jid w of
        None \<Rightarrow> (w, Returned)
      | Some job \<Rightarrow>
          if status job \<noteq> ''completed'' then (w, Returned)
          else
            (case getDownloadFilePath E (files w) jid (format job) of
               None \<Rightarrow> (w, Returned)
             | Some p \<Rightarrow>
                 (case files w p of
                    None \<Rightarrow> (w, Returned)
                  | Some fsize \<Rightarrow>
                      if p = [] then (w, Returned)
                      else auto_upload E tus fuel jid uid job p fsize ep w)))"

text \<open>
  \<open>getUploadedToNasJobIds\<close>: the ids of the user's jobs whose uploaded flag is 1.
\<close>

definition getUploadedToNasJobIds :: "string \<Rightarrow> world \<Rightarrow> string set" where
  "getUploadedToNasJobIds uid w =
     {jid. \<exists>j. jobs w jid = Some j \<and> userId j = uid \<and> uploadedToNas j = Some 1}"

definition job_failed :: "string \<Rightarrow> string \<Rightarrow> string \<Rightarrow> world \<Rightarrow> world" where
  "job_failed jid uid m w =
     (let (w1, failedJob) =
            updateDownloadJob jid
              (no_updates\<lparr>set_status := Some ''failed'', set_progress := Some 0,
                 set_errorMessage := Some (Some m)\<rparr>) w
      in broadcastToUser uid (job_update failedJob) w1)"

text \<open>
  \<open>processDownload\<close>. What \<open>downloadVideo\<close> does is given: the steps \<open>steps\<close> that happen
  while it is awaited, then \<open>outcome\<close>, the message of the error it throws or the path
  and size of the file. The update that marks the job \<open>completed\<close> is written without
  reading the job. An error of the automatic upload is caught and only logged.
\<close>

definition processDownload ::
  "env \<Rightarrow> tus_server \<Rightarrow> nat \<Rightarrow> dl_step list \<Rightarrow> string + string \<times> nat
     \<Rightarrow> string \<Rightarrow> string \<Rightarrow> string \<Rightarrow> string \<Rightarrow> string option \<Rightarrow> ProxyConfig option
     \<Rightarrow> world \<Rightarrow> world" where
  "processDownload E tus fuel steps outcome jid uid url fmt q proxyConfig w =
     (case autoCleanupIfNeeded E (getUploadedToNasJobIds uid w) (files w) of
        Inl m \<Rightarrow> job_failed jid uid m w
      | Inr fs \<Rightarrow>
          (let w0 = w\<lparr>files := fs\<rparr>;
               (w1, updatedJob) =
                 updateDownloadJob jid
                   (no_updates\<lparr>set_status := Some ''downloading'', set_progress := Some 0\<rparr>) w0;
               w2 = broadcastToUser uid (job_update updatedJob) w1;
               w3 = run_steps jid uid steps w2
           in case outcome of
                Inl m \<Rightarrow> job_failed jid uid m w3
              | Inr (path, fsize) \<Rightarrow>
                  (let (w4, completedJob) =
                         updateDownloadJob jid
                           (no_updates\<lparr>set_status := Some ''completed'', set_progress := Some 100,
                              set_filePath := Some (Some path),
                              set_fileSize := Some (Some fsize)\<rparr>) w3;
                       w5 = broadcastToUser uid (job_update completedJob) w4
                   in case getUserSettings uid w5 of
                        None \<Rightarrow> w5
                      | Some s \<Rightarrow>
                          (case synologyEndpoint s of
                             None \<Rightarrow> w5
                           | Some ep \<Rightarrow>
                               if ep \<noteq> [] \<and> autoUploadToNas_flag s = Some 1
                               then fst (autoUploadToNas E tus fuel jid uid ep w5)
                               else w5))))"

section \<open>Submission (POST /api/download)\<close>







section \<open>Concrete inputs\<close>

text \<open>
  What \<open>new URL(rel, base).toString()\<close> gives when \<open>base\<close> is \<open>scheme://host/...\<close>
  in lower case and \<open>rel\<close> is an absolute path (one leading slash) that needs no
  escaping: the scheme and the host of the base, then \<open>rel\<close>. The examples use it on
  such inputs only; on any other it gives \<open>None\<close>.
\<close>

definition origin_of :: "ustring \<Rightarrow> ustring option" where
  "origin_of base =
     (let scheme = takeWhile (\<lambda>c. c \<noteq> 58) base;
          rest = dropWhile (\<lambda>c. c \<noteq> 58) base
      in if prefix (code_units ''://'') rest
         then Some (scheme @ code_units ''://'' @ takeWhile (\<lambda>c. c \<noteq> 47) (drop 3 rest))
         else None)"

definition resolve_path :: "ustring \<Rightarrow> ustring \<Rightarrow> ustring option" where
  "resolve_path rel base =
     (if prefix [47] rel \<and> \<not> prefix [47, 47] rel
      then map_option (\<lambda>origin. origin @ rel) (origin_of base) else None)"

definition example_env :: env where
  "example_env =
     \<lparr>getDownloadFilePath = (\<lambda>fs jid fmt.
          let p = ''downloads/'' @ jid @ (if fmt = ''audio'' then ''.mp3'' else ''.mp4'')
          in if fs p = None then None else Some p),
       cleanupDownloadFile = (\<lambda>jid fs. fs(''downloads/'' @ jid @ ''.mp3'' := None,
                                              ''downloads/'' @ jid @ ''.mp4'' := None)),
       autoCleanupIfNeeded = (\<lambda>ids fs. Inr fs),
       getVideoInfo = (\<lambda>url proxy. if url = ''https://youtu.be/gone'' then Inl ''Video unavailable''
                         else Inr \<lparr>title = code_units ''Clip'', thumbnail = ''t.jpg''\<rparr>),
       isUrl = (\<lambda>s. prefix ''https://'' s \<or> prefix ''http://'' s),
       base64 = (\<lambda>s. ''Q2xpcC5tcDQ=''),
       resolveURL = resolve_path,
       encodeURIComponent = (\<lambda>s. map char_of s)\<rparr>"

definition example_job :: "string \<Rightarrow> DownloadJob" where
  "example_job st =
     \<lparr>jobId = ''j1'', userId = ''alice'', youtubeUrl = ''https://youtu.be/abc'',
      videoTitle = Some (code_units ''Clip''), videoThumbnail = Some ''t.jpg'',
      format = ''video'', quality = Some ''720p'', status = st,
      progress = (if st = ''completed'' then Some 100 else Some 0),
      errorMessage = None, filePath = Some ''downloads/j1.mp4'', fileSize = Some 8388608,
      uploadedToNas = Some 0, createdAt = Some ''t0'', updatedAt = Some ''t0''\<rparr>"

definition example_world :: "string \<Rightarrow> world" where
  "example_world st =
     \<lparr>jobs = [''j1'' \<mapsto> example_job st],
      settings = Map.empty,
      files = [''downloads/j1.mp4'' \<mapsto> 8388608],
      clock = ''t1'', broadcasts = [], spawned = [], network = [], removed = []\<rparr>"

definition example_settings :: UserSettings where
  "example_settings =
     \<lparr>synologyEndpoint = Some (code_units ''https://nas.example/''),
      autoUploadToNas_flag = Some 1,
      proxyEnabled = Some 0, proxyType = None, proxyHost = None, proxyPort = None,
      proxyUsername = None, proxyPassword = None\<rparr>"

definition example_world_nas :: "string \<Rightarrow> world" where
  "example_world_nas st = (example_world st)\<lparr>settings := [''alice'' \<mapsto> example_settings]\<rparr>"


definition ok_server :: tus_server where
  "ok_server =
     \<lparr>on_create = CreateResponse 201 (Some (code_units ''/files/abc'')) [] ''Created'',
      on_patch = (\<lambda>i off len. PatchResponse 204 None)\<rparr>"

definition echo_server :: tus_server where
  "echo_server =
     \<lparr>on_create = CreateResponse 201 (Some (code_units ''http://nas.example/files/abc'')) []
        ''Created'',
      on_patch = (\<lambda>i off len. PatchResponse 204 (Some (off + len)))\<rparr>"



definition session_url :: ustring where
  "session_url = code_units ''https://nas.example/files/abc''"

definition broken_server :: tus_server where
  "broken_server =
     \<lparr>on_create = CreateResponse 500 None ''disk full'' ''Internal Server Error'',
      on_patch = (\<lambda>i off len. PatchResponse 204 None)\<rparr>"





definition cancel_by_alice :: "world \<Rightarrow> world" where
  "cancel_by_alice w = fst (post_jobs_cancel (Some ''alice'') ''j1'' w)"

definition report :: "rat \<Rightarrow> DownloadProgress" where
  "report x = \<lparr>p_status = ''downloading'', p_progress = x, p_error = None\<rparr>"

section \<open>Cancel, retry and the ownership check\<close>

lemma updateDownloadJob_Some:
  "jobs w jid = Some j \<Longrightarrow>
     updateDownloadJob jid u w =
       (w\<lparr>jobs := (jobs w)(jid \<mapsto> apply_updates u (clock w) j)\<rparr>,
        Some (apply_updates u (clock w) j))"
  by (simp add: updateDownloadJob_def Let_def)

lemma updateDownloadJob_None:
  "jobs w jid = None \<Longrightarrow> updateDownloadJob jid u w = (w, None)"
  by (simp add: updateDownloadJob_def)

text \<open>
  C9. Cancelling an existing job of the caller sets its status to \<open>failed\<close> and its error
  message to \<open>Cancelled by user\<close> whatever the status was (also \<open>completed\<close>); the other
  columns keep their values, the update time apart, and the answer is the updated job.
\<close>

theorem cancel_unconditional:
  assumes "jobs w jid = Some j" and "userId j = uid" and "uid \<noteq> []"
  shows "post_jobs_cancel (Some uid) jid w =
           (w\<lparr>jobs := (jobs w)(jid \<mapsto> j\<lparr>status := ''failed'',
                  errorMessage := Some ''Cancelled by user'', updatedAt := Some (clock w)\<rparr>),
               broadcasts := broadcasts w @
                 [(uid, job_update (Some (j\<lparr>status := ''failed'',
                    errorMessage := Some ''Cancelled by user'', updatedAt := Some (clock w)\<rparr>)))]\<rparr>,
            Reply 200 (JobJson (Some (j\<lparr>status := ''failed'',
              errorMessage := Some ''Cancelled by user'', updatedAt := Some (clock w)\<rparr>))))"
  using assms
  by (simp add: post_jobs_cancel_def requireAuth_def cancel_handler_def getDownloadJob_def
      updateDownloadJob_Some apply_updates_def no_updates_def broadcastToUser_def)

theorem cancel_unconditional_witness:
  "status (example_job ''completed'') = ''completed''
   \<and> map_option status (jobs (fst (post_jobs_cancel (Some ''alice'') ''j1''
        (example_world ''completed''))) ''j1'') = Some ''failed''
   \<and> map_option errorMessage (jobs (fst (post_jobs_cancel (Some ''alice'') ''j1''
        (example_world ''completed''))) ''j1'') = Some (Some ''Cancelled by user'')"
  using cancel_unconditional [of "example_world ''completed''" "''j1''"
      "example_job ''completed''" "''alice''"]
  by (simp add: example_world_def example_job_def)

text \<open>
  C10. Cancel, retry, delete and file download load the job first. When the job does not
  exist or belongs to another user, an authenticated caller gets 404 \<open>Job not found\<close>; and
  whoever the caller is (also none), nothing changes: no job, no file, no message sent and
  no orchestrator run started. So a request by anyone but the owner leaves the owner's job
  as it was.
\<close>

theorem per_job_routes_check_owner:
  assumes "jobs w jid = None \<or> (\<exists>j. jobs w jid = Some j \<and> sess \<noteq> Some (userId j))"
  shows "fst (post_jobs_cancel sess jid w) = w
       \<and> fst (post_jobs_retry E sess jid w) = w
       \<and> fst (delete_jobs E sess jid w) = w
       \<and> fst (get_jobs_download E sess jid w) = w
       \<and> (\<forall>uid. sess = Some uid \<and> uid \<noteq> [] \<longrightarrow>
            snd (post_jobs_cancel sess jid w) = Reply 404 (Msg ''Job not found'')
          \<and> snd (post_jobs_retry E sess jid w) = Reply 404 (Msg ''Job not found'')
          \<and> snd (delete_jobs E sess jid w) = Reply 404 (Msg ''Job not found'')
          \<and> snd (get_jobs_download E sess jid w) = Reply 404 (Msg ''Job not found''))"
  using assms
  by (auto simp: post_jobs_cancel_def post_jobs_retry_def delete_jobs_def
      get_jobs_download_def requireAuth_def cancel_handler_def retry_handler_def
      delete_handler_def download_file_handler_def getDownloadJob_def not_found_def
      split: option.splits)

theorem per_job_routes_check_owner_witness:
  "jobs (example_world ''downloading'') ''j1'' = Some (example_job ''downloading'')
   \<and> userId (example_job ''downloading'') = ''alice''
   \<and> post_jobs_cancel (Some ''bob'') ''j1'' (example_world ''downloading'')
       = (example_world ''downloading'', Reply 404 (Msg ''Job not found''))
   \<and> post_jobs_retry example_env (Some ''bob'') ''j1'' (example_world ''downloading'')
       = (example_world ''downloading'', Reply 404 (Msg ''Job not found''))
   \<and> delete_jobs example_env (Some ''bob'') ''j1'' (example_world ''downloading'')
       = (example_world ''downloading'', Reply 404 (Msg ''Job not found''))
   \<and> get_jobs_download example_env (Some ''bob'') ''j1'' (example_world ''downloading'')
       = (example_world ''downloading'', Reply 404 (Msg ''Job not found''))"
proof -
  have own: "jobs (example_world ''downloading'') ''j1'' = Some (example_job ''downloading'')"
    by (simp add: example_world_def)
  have who: "userId (example_job ''downloading'') = ''alice''"
    by (simp add: example_job_def)
  have "jobs (example_world ''downloading'') ''j1'' = None
        \<or> (\<exists>j. jobs (example_world ''downloading'') ''j1'' = Some j
               \<and> Some ''bob'' \<noteq> Some (userId j))"
    using own who by simp
  from per_job_routes_check_owner [OF this, of example_env] own who
  show ?thesis by (simp add: prod_eq_iff)
qed

text \<open>
  C4, evaluated where the code departs from it. Retry of a job that is \<open>failed\<close> is
  accepted: the job gets status \<open>queued\<close>, progress 0, no error message, no file path,
  no file size and the uploaded flag 0, and the orchestrator is started on it. But the
  route has no check of the status: retry of a job that is being downloaded, and of one
  that is \<open>completed\<close>, is answered with 200 as well, the job is queued again and one
  more run of the orchestrator is started on it.
\<close>

theorem retry_accepted_in_any_status:
  "snd (post_jobs_retry example_env (Some ''alice'') ''j1'' (example_world ''failed''))
     = Reply 200 (JobJson (Some ((example_job ''failed'')\<lparr>status := ''queued'',
         progress := Some 0, errorMessage := None, filePath := None, fileSize := None,
         uploadedToNas := Some 0, updatedAt := Some ''t1''\<rparr>)))
   \<and> map sp_jobId (spawned (fst (post_jobs_retry example_env (Some ''alice'') ''j1''
        (example_world ''failed'')))) = [''j1'']
   \<and> status (example_job ''downloading'') = ''downloading''
   \<and> snd (post_jobs_retry example_env (Some ''alice'') ''j1'' (example_world ''downloading''))
     = Reply 200 (JobJson (Some ((example_job ''downloading'')\<lparr>status := ''queued'',
         progress := Some 0, errorMessage := None, filePath := None, fileSize := None,
         uploadedToNas := Some 0, updatedAt := Some ''t1''\<rparr>)))
   \<and> map_option status (jobs (fst (post_jobs_retry example_env (Some ''alice'') ''j1''
        (example_world ''downloading''))) ''j1'') = Some ''queued''
   \<and> map sp_jobId (spawned (fst (post_jobs_retry example_env (Some ''alice'') ''j1''
        (example_world ''downloading'')))) = [''j1'']
   \<and> status (example_job ''completed'') = ''completed''
   \<and> snd (post_jobs_retry example_env (Some ''alice'') ''j1'' (example_world ''completed''))
     = Reply 200 (JobJson (Some ((example_job ''completed'')\<lparr>status := ''queued'',
         progress := Some 0, errorMessage := None, filePath := None, fileSize := None,
         uploadedToNas := Some 0, updatedAt := Some ''t1''\<rparr>)))
   \<and> map_option status (jobs (fst (post_jobs_retry example_env (Some ''alice'') ''j1''
        (example_world ''completed''))) ''j1'') = Some ''queued''
   \<and> map sp_jobId (spawned (fst (post_jobs_retry example_env (Some ''alice'') ''j1''
        (example_world ''completed'')))) = [''j1'']"
  by (simp add: post_jobs_retry_def requireAuth_def retry_handler_def getDownloadJob_def
      updateDownloadJob_def apply_updates_def broadcastToUser_def Let_def
      example_world_def example_job_def example_env_def)

section \<open>Progress updates and cancellation\<close>

lemma floor_rat_numeral: "\<lfloor>(numeral a / numeral b :: rat)\<rfloor> = numeral a div numeral b"
  by (metis floor_divide_of_int_eq of_int_numeral)

lemma Math_round_mono: "x \<le> y \<Longrightarrow> Math_round x \<le> Math_round y"
  by (simp add: Math_round_def floor_mono)

lemma progressCallback_live:
  assumes "jobs w jid = Some j" and "status j \<noteq> ''failed''"
  shows "jobs (progressCallback jid uid p w) jid =
     Some (j\<lparr>status := p_status p, progress := Some (Math_round (p_progress p)),
       errorMessage := (case p_error p of None \<Rightarrow> None | Some e \<Rightarrow> if e = [] then None else Some e),
       updatedAt := Some (clock w)\<rparr>)"
  using assms
  by (simp add: progressCallback_def getDownloadJob_def updateDownloadJob_Some apply_updates_def
      no_updates_def broadcastToUser_def)

lemma progressCallback_failed:
  "jobs w jid = Some j \<Longrightarrow> status j = ''failed'' \<Longrightarrow> progressCallback jid uid p w = w"
  by (simp add: progressCallback_def getDownloadJob_def)

text \<open>
  C1, evaluated where the code departs from it. A job is being downloaded and its owner
  cancels it. A progress callback that comes later is dropped and the job stays
  \<open>failed\<close>; but when \<open>downloadVideo\<close> then returns, \<open>processDownload\<close> marks the job
  \<open>completed\<close>. Likewise a round of the upload loop that runs after a cancellation sets
  the job to \<open>uploading\<close>.
\<close>

theorem cancelled_job_completed_anyway:
  "map_option status
     (jobs (run_steps ''j1'' ''alice'' [Meanwhile cancel_by_alice, Callback (report 50)]
        (example_world ''downloading'')) ''j1'') = Some ''failed''
   \<and> map_option status
     (jobs (processDownload example_env ok_server 0
        [Meanwhile cancel_by_alice, Callback (report 50)] (Inr (''downloads/j1.mp4'', 8388608))
        ''j1'' ''alice'' ''https://youtu.be/abc'' ''video'' (Some ''720p'') None
        (example_world ''queued'')) ''j1'') = Some ''completed''
   \<and> map_option status (jobs (cancel_by_alice (example_world ''uploading'')) ''j1'')
       = Some ''failed''
   \<and> map_option status
     (jobs (fst (chunkStep (on_patch ok_server) uploadProgress ''j1'' ''alice''
        session_url 8388608 0 0
        (cancel_by_alice (example_world ''uploading'')))) ''j1'') = Some ''uploading''"
  by (simp add: processDownload_def cancel_by_alice_def post_jobs_cancel_def requireAuth_def
      cancel_handler_def getDownloadJob_def updateDownloadJob_def apply_updates_def
      no_updates_def broadcastToUser_def Let_def progressCallback_def example_world_def
      example_job_def report_def example_env_def getUserSettings_def chunkStep_def
      ok_server_def)

text \<open>
  C2, as the callback is written. While the job exists and is not \<open>failed\<close>, each
  callback writes the rounded percentage it reports, whatever was stored before: the
  persisted progress after each callback is the rounded report of that callback. So the
  persisted values are non-decreasing when the reports are.
\<close>

theorem progress_last_write_wins:
  assumes "jobs w jid = Some j" and "status j \<noteq> ''failed''"
    and "\<forall>p\<in>set ps. p_status p \<noteq> ''failed''"
  shows "progress_trace jid uid ps w = map (\<lambda>p. Some (Some (Math_round (p_progress p)))) ps
       \<and> (sorted (map p_progress ps) \<longrightarrow> sorted (map (\<lambda>p. Math_round (p_progress p)) ps))"
proof
  show "progress_trace jid uid ps w = map (\<lambda>p. Some (Some (Math_round (p_progress p)))) ps"
    using assms
  proof (induction ps arbitrary: w j)
    case Nil
    then show ?case by simp
  next
    case (Cons p ps)
    have live: "jobs (progressCallback jid uid p w) jid =
       Some (j\<lparr>status := p_status p, progress := Some (Math_round (p_progress p)),
         errorMessage := (case p_error p of None \<Rightarrow> None
                          | Some e \<Rightarrow> if e = [] then None else Some e),
         updatedAt := Some (clock w)\<rparr>)"
      using Cons.prems(1,2) by (rule progressCallback_live)
    have "progress_trace jid uid ps (progressCallback jid uid p w)
          = map (\<lambda>p. Some (Some (Math_round (p_progress p)))) ps"
      using Cons.prems(3) by (intro Cons.IH [OF live]) simp_all
    then show ?case using live by simp
  qed
  show "sorted (map p_progress ps) \<longrightarrow> sorted (map (\<lambda>p. Math_round (p_progress p)) ps)"
    by (induction ps) (auto simp: Math_round_mono)
qed

theorem progress_last_write_wins_witness:
  "progress_trace ''j1'' ''alice'' [report 25, report (81 / 2)] (example_world ''downloading'')
     = [Some (Some 25), Some (Some 41)]
   \<and> sorted [Math_round (p_progress (report 25)), Math_round (p_progress (report (81 / 2)))]"
proof -
  have a: "jobs (example_world ''downloading'') ''j1'' = Some (example_job ''downloading'')"
    by (simp add: example_world_def)
  have b: "status (example_job ''downloading'') \<noteq> ''failed''"
    by (simp add: example_job_def)
  have c: "\<forall>p\<in>set [report 25, report (81 / 2)]. p_status p \<noteq> ''failed''"
    by (simp add: report_def)
  have d: "sorted (map p_progress [report 25, report (81 / 2)])"
    by (simp add: report_def)
  from progress_last_write_wins [OF a b c, of "''alice''"] d
  show ?thesis by (simp add: report_def Math_round_def floor_rat_numeral)
qed

text \<open>
  C2, as the claim states it, fails: after the callbacks 40 then 25 the persisted
  progress is 25, not 40.
\<close>

theorem progress_40_then_25_counterexample:
  "progress_trace ''j1'' ''alice'' [report 40, report 25] (example_world ''downloading'')
     = [Some (Some 40), Some (Some 25)]
   \<and> map_option progress
       (jobs (run_steps ''j1'' ''alice'' [Callback (report 40), Callback (report 25)]
          (example_world ''downloading'')) ''j1'') = Some (Some 25)"
  by (simp add: getDownloadJob_def Math_round_def floor_rat_numeral updateDownloadJob_def
      apply_updates_def no_updates_def broadcastToUser_def Let_def progressCallback_def
      example_world_def example_job_def report_def)

section \<open>The chunk loop\<close>















section \<open>Upload progress\<close>

















section \<open>The create handshake\<close>

lemma upload_route_reaches_create:
  assumes "uid \<noteq> []" and "jobs w jid = Some job" and "userId job = uid"
    and "status job = ''completed''" and "uploadedToNas job \<noteq> Some 1"
    and "settings w uid = Some s" and "synologyEndpoint s = Some ep" and "ep \<noteq> []"
    and "getDownloadFilePath E (files w) jid (format job) = Some p" and "p \<noteq> []"
    and "files w p = Some sz"
  shows "post_jobs_upload_to_nas E tus fuel (Some uid) jid w
           = upload_create E tus fuel jid uid job p sz ep w"
  using assms
  by (simp add: post_jobs_upload_to_nas_def requireAuth_def upload_handler_def
      getDownloadJob_def getUserSettings_def)

lemma auto_reaches_create:
  assumes "jobs w jid = Some job" and "status job = ''completed''"
    and "getDownloadFilePath E (files w) jid (format job) = Some p" and "p \<noteq> []"
    and "files w p = Some sz"
  shows "autoUploadToNas E tus fuel jid uid ep w = auto_upload E tus fuel jid uid job p sz ep w"
  using assms
  by (simp add: autoUploadToNas_def getDownloadJob_def)









lemma request_forms:
  "create_request E endpoint filename sz
     = POST endpoint
         [(''Tus-Resumable'', ''1.0.0''), (''Upload-Length'', toString sz),
          (''Upload-Metadata'', ''filename '' @ base64 E filename)]"
  "patch_request url off len
     = PATCH url
         [(''Tus-Resumable'', ''1.0.0''), (''Upload-Offset'', toString off),
          (''Content-Type'', ''application/offset+octet-stream'')] len"
  by (simp_all add: create_request_def patch_request_def tus_headers_def)


lemma example_nas_facts:
  "''alice'' \<noteq> []"
  "jobs (example_world_nas ''completed'') ''j1'' = Some (example_job ''completed'')"
  "userId (example_job ''completed'') = ''alice''"
  "status (example_job ''completed'') = ''completed''"
  "uploadedToNas (example_job ''completed'') \<noteq> Some 1"
  "settings (example_world_nas ''completed'') ''alice'' = Some example_settings"
  "synologyEndpoint example_settings = Some (code_units ''https://nas.example/'')"
  "code_units ''https://nas.example/'' \<noteq> []"
  "getDownloadFilePath example_env (files (example_world_nas ''completed'')) ''j1''
     (format (example_job ''completed'')) = Some ''downloads/j1.mp4''"
  "''downloads/j1.mp4'' \<noteq> []"
  "files (example_world_nas ''completed'') ''downloads/j1.mp4'' = Some 8388608"
  by (simp_all add: example_world_nas_def example_world_def example_job_def example_settings_def
      example_env_def code_units_def)

lemma toString_500: "toString 500 = ''500''"
  by (simp add: toString.simps digit_def)

lemma tusEndpoint_values:
  "tusEndpoint (code_units ''https://nas.example/'') = code_units ''https://nas.example/files/''"
  "tusEndpoint (code_units ''http://nas.example/'') = code_units ''http://nas.example/files/''"
  "tusEndpoint (code_units '' https://nas.example/files'' @ [160])
     = code_units ''https://nas.example/files/''"
  by (simp_all add: tusEndpoint_def trim_def js_space_def Let_def suffix_to_prefix code_units_def)






section \<open>A create request that fails\<close>

text \<open>
  C3, as the code does it. The create request is answered with a status other than 201.
  The manual route answers 400 with the message \<open>Upload initialization failed (HTTP
  status)\<close> and the body text (or the status text) as details, and changes nothing but
  the log of requests: the job record is as it was, \<open>completed\<close>. The automatic upload
  throws \<open>TUS create failed: status\<close>. In both, the files on disk are as they were and
  the create request is the only request sent.
\<close>

theorem create_failure_keeps_artifact:
  assumes "uid \<noteq> []" and "jobs w jid = Some job" and "userId job = uid"
    and "status job = ''completed''" and "uploadedToNas job \<noteq> Some 1"
    and "settings w uid = Some s" and "synologyEndpoint s = Some ep" and "ep \<noteq> []"
    and "getDownloadFilePath E (files w) jid (format job) = Some p" and "p \<noteq> []"
    and "files w p = Some sz"
    and "on_create tus = CreateResponse st loc errorText statusText" and "st \<noteq> 201"
  shows "post_jobs_upload_to_nas E tus fuel (Some uid) jid w
           = (w\<lparr>network := network w @ [POST (tusEndpoint ep)
                        [(''Tus-Resumable'', ''1.0.0''), (''Upload-Length'', toString sz),
                         (''Upload-Metadata'', ''filename '' @ base64 E (filename_of job))]]\<rparr>,
              Reply 400
                (MsgDetails (''Upload initialization failed (HTTP '' @ toString st @ '')'')
                   (if errorText \<noteq> [] then errorText else statusText)))
       \<and> snd (autoUploadToNas E tus fuel jid uid ep w) = Thrown (''TUS create failed: '' @ toString st)
       \<and> files (fst (autoUploadToNas E tus fuel jid uid ep w)) = files w
       \<and> removed (fst (autoUploadToNas E tus fuel jid uid ep w)) = removed w
       \<and> network (fst (autoUploadToNas E tus fuel jid uid ep w))
           = network w @ [POST (tusEndpoint ep)
                        [(''Tus-Resumable'', ''1.0.0''), (''Upload-Length'', toString sz),
                         (''Upload-Metadata'', ''filename '' @ base64 E (filename_of job))]]"
proof -
  have m: "post_jobs_upload_to_nas E tus fuel (Some uid) jid w
             = upload_create E tus fuel jid uid job p sz ep w"
    using assms(1-11) by (rule upload_route_reaches_create)
  have a: "autoUploadToNas E tus fuel jid uid ep w = auto_upload E tus fuel jid uid job p sz ep w"
    using assms(2,4,9,10,11) by (rule auto_reaches_create)
  have c1: "upload_create E tus fuel jid uid job p sz ep w
           = (w\<lparr>network := network w @ [create_request E (tusEndpoint ep) (filename_of job) sz]\<rparr>,
              Reply 400
                (MsgDetails (''Upload initialization failed (HTTP '' @ toString st @ '')'')
                   (if errorText \<noteq> [] then errorText else statusText)))"
    using assms(12,13) by (simp add: upload_create_def Let_def)
  have c2: "auto_upload E tus fuel jid uid job p sz ep w
           = (w\<lparr>jobs := (jobs w)(jid \<mapsto> apply_updates
                   (no_updates\<lparr>set_status := Some ''uploading'', set_progress := Some 90\<rparr>)
                   (clock w) job),
                broadcasts := broadcasts w @ [(uid, job_update (Some (apply_updates
                   (no_updates\<lparr>set_status := Some ''uploading'', set_progress := Some 90\<rparr>)
                   (clock w) job)))],
                network := network w @ [create_request E (tusEndpoint ep) (filename_of job) sz]\<rparr>,
              Thrown (''TUS create failed: '' @ toString st))"
    using assms(12,13)
    by (simp add: auto_upload_def Let_def updateDownloadJob_Some [OF assms(2)] broadcastToUser_def)
  show ?thesis unfolding m a c1 c2 by (simp add: request_forms)
qed

theorem create_failure_keeps_artifact_witness:
  "post_jobs_upload_to_nas example_env broken_server 2 (Some ''alice'') ''j1''
          (example_world_nas ''completed'')
     = ((example_world_nas ''completed'')
          \<lparr>network := [POST (code_units ''https://nas.example/files/'')
                         [(''Tus-Resumable'', ''1.0.0''), (''Upload-Length'', ''8388608''),
                          (''Upload-Metadata'', ''filename Q2xpcC5tcDQ='')]]\<rparr>,
        Reply 400 (MsgDetails ''Upload initialization failed (HTTP 500)'' ''disk full''))
   \<and> snd (autoUploadToNas example_env broken_server 2 ''j1'' ''alice''
          (code_units ''https://nas.example/'') (example_world_nas ''completed''))
       = Thrown ''TUS create failed: 500''
   \<and> files (fst (autoUploadToNas example_env broken_server 2 ''j1'' ''alice''
          (code_units ''https://nas.example/'') (example_world_nas ''completed'')))
        ''downloads/j1.mp4''
       = Some 8388608"
proof -
  have r: "on_create broken_server = CreateResponse 500 None ''disk full'' ''Internal Server Error''"
    by (simp add: broken_server_def)
  have n: "(500::nat) \<noteq> 201"
    by simp
  have f: "network (example_world_nas ''completed'') = []"
    by (simp add: example_world_nas_def example_world_def)
  have ts: "toString 8388608 = ''8388608''"
    by (simp add: toString.simps digit_def)
  have b64: "base64 example_env (filename_of (example_job ''completed'')) = ''Q2xpcC5tcDQ=''"
    by (simp add: example_env_def)
  note T = create_failure_keeps_artifact [OF example_nas_facts r n, of 2]
  show ?thesis
    using T example_nas_facts(11) by (simp add: toString_500 tusEndpoint_values f ts b64)
qed

text \<open>
  C3, as the claim states it, fails: after the endpoint answers the create request with
  500, the job of the manual upload is still \<open>completed\<close>, with no error message; and a
  job whose automatic upload meets the same answer is left \<open>uploading\<close> at 90. Neither is
  \<open>failed\<close>.
\<close>

theorem create_500_job_not_failed_counterexample:
  "map_option status
     (jobs (fst (post_jobs_upload_to_nas example_env broken_server 2 (Some ''alice'') ''j1''
        (example_world_nas ''completed''))) ''j1'') = Some ''completed''
   \<and> map_option errorMessage
     (jobs (fst (post_jobs_upload_to_nas example_env broken_server 2 (Some ''alice'') ''j1''
        (example_world_nas ''completed''))) ''j1'') = Some None
   \<and> map_option status
     (jobs (processDownload example_env broken_server 2 [] (Inr (''downloads/j1.mp4'', 8388608))
        ''j1'' ''alice'' ''https://youtu.be/abc'' ''video'' (Some ''720p'') None
        (example_world_nas ''queued'')) ''j1'') = Some ''uploading''
   \<and> map_option progress
     (jobs (processDownload example_env broken_server 2 [] (Inr (''downloads/j1.mp4'', 8388608))
        ''j1'' ''alice'' ''https://youtu.be/abc'' ''video'' (Some ''720p'') None
        (example_world_nas ''queued'')) ''j1'') = Some (Some 90)"
  by (simp add: post_jobs_upload_to_nas_def requireAuth_def upload_handler_def upload_create_def
      processDownload_def autoUploadToNas_def auto_upload_def getDownloadJob_def
      getUserSettings_def updateDownloadJob_def apply_updates_def no_updates_def
      broadcastToUser_def Let_def broken_server_def example_world_nas_def example_world_def
      example_job_def example_settings_def example_env_def code_units_def)

section \<open>Submission\<close>




end
